theory Spec2Isabelle
  imports Main "HOL-Library.Word"
begin

section \<open>Go library functions the package calls\<close>

text \<open>
  The package \<open>ffmpeg\<close> is glue around \<open>os/exec\<close>: it builds an argument vector,
  starts \<open>ffprobe\<close> or \<open>ffmpeg\<close>, races the process against a context and classifies
  the error. The library functions it calls are modelled here after the Go standard
  library, for a Unix build (the path separator is \<open>/\<close> and there are no volume names).
  Go strings are byte sequences, modelled as \<open>string\<close>.
\<close>

subsection \<open>path/filepath and strings\<close>

definition IsPathSeparator :: "char \<Rightarrow> bool" where
  "IsPathSeparator c = (c = CHR ''/'')"

text \<open>
  \<open>filepath.Base\<close>: the empty path gives \<open>.\<close>; trailing separators are stripped; the
  result is what follows the last separator, and \<open>/\<close> when nothing is left.
\<close>

definition filepath_Base :: "string \<Rightarrow> string" where
  "filepath_Base path =
     (if path = [] then ''.''
      else
        let stripped = rev (dropWhile IsPathSeparator (rev path));
            elem = rev (takeWhile (\<lambda>c. \<not> IsPathSeparator c) (rev stripped))
        in if elem = [] then ''/'' else elem)"

text \<open>
  \<open>filepath.Ext\<close> scans from the last byte towards the front, stops at a separator and
  returns the suffix that starts at the first dot it meets:
  \<^verbatim>\<open>for i := len(path) - 1; i >= 0 && !os.IsPathSeparator(path[i]); i-- {
      if path[i] == '.' { return path[i:] } }
  return ""\<close>
  The first argument of \<open>Ext_loop\<close> is \<open>path[0..i]\<close> reversed (its head is \<open>path[i]\<close>),
  the second is \<open>path[i+1:]\<close>.
\<close>

fun Ext_loop :: "string \<Rightarrow> string \<Rightarrow> string" where
  "Ext_loop [] rest = []"
| "Ext_loop (c # front) rest =
     (if IsPathSeparator c then []
      else if c = CHR ''.'' then c # rest
      else Ext_loop front (c # rest))"

definition filepath_Ext :: "string \<Rightarrow> string" where
  "filepath_Ext path = Ext_loop (rev path) []"

definition strings_HasSuffix :: "string \<Rightarrow> string \<Rightarrow> bool" where
  "strings_HasSuffix s suffix =
     (length s \<ge> length suffix \<and> drop (length s - length suffix) s = suffix)"

definition strings_TrimSuffix :: "string \<Rightarrow> string \<Rightarrow> string" where
  "strings_TrimSuffix s suffix =
     (if strings_HasSuffix s suffix then take (length s - length suffix) s else s)"

subsection \<open>fmt: the verb \<open>%d\<close> on an unsigned integer\<close>

text \<open>The digit table of \<open>strconv\<close>, read at a value below ten.\<close>

definition digit :: "nat \<Rightarrow> char" where
  "digit d = ''0123456789'' ! d"

fun decimal :: "nat \<Rightarrow> string" where
  "decimal n = (if n < 10 then [digit n] else decimal (n div 10) @ [digit (n mod 10)])"

declare decimal.simps [simp del]

text \<open>
  \<open>uint\<close> is 64 bits wide on the 64-bit platforms; \<open>fmt.Sprintf("%dx%d", w, h)\<close> prints
  both values in decimal with an \<open>x\<close> between them.
\<close>

type_synonym uint = "64 word"

definition Sprintf_dxd :: "uint \<Rightarrow> uint \<Rightarrow> string" where
  "Sprintf_dxd w h = decimal (unat w) @ ''x'' @ decimal (unat h)"

subsection \<open>Error values\<close>

text \<open>
  Errors created by the standard library: the sentinel \<open>exec.ErrNotFound\<close>, the
  wrapper \<open>*exec.Error{Name, Err}\<close> that \<open>exec.LookPath\<close> returns, and any other
  error (\<open>*fs.PathError\<close>, \<open>*exec.ExitError\<close>, a JSON syntax error, ...) named by its
  message. A comparison \<open>err == exec.ErrNotFound\<close> holds for the sentinel itself only.
\<close>

datatype lib_error =
    exec_ErrNotFound
  | exec_Error string lib_error
  | other_error string

text \<open>
  The errors a call of the package returns: its three sentinels, a library error handed
  on unchanged, or the value of \<open>fmt.Errorf(format, args...)\<close>, kept as the format
  with its arguments (an error argument is the one wrapped by \<open>%w\<close>).
\<close>

datatype fmt_arg = ArgString string | ArgError lib_error

datatype go_error =
    ErrFFProbeNotFound
  | ErrFFMPEGNotFound
  | ErrTimeout
  | Lib lib_error
  | Errorf string "fmt_arg list"

subsection \<open>os/exec\<close>

text \<open>
  What the operating system does during one call is a parameter of the model:
  \<^item> \<open>LookPath\<close>: the search of the executable path, \<open>None\<close> when no directory of
    the search path holds the file;
  \<^item> \<open>launch_err\<close>: the failure, if any, of launching the resolved executable;
  \<^item> \<open>ctx_done_first\<close>: whether the \<open>select\<close> takes the case \<open><-ctx.Done()\<close>
    (the context fires before the waiter delivers the exit of the process);
  \<^item> \<open>kill_err\<close>, \<open>wait_err\<close>: the results of \<open>cmd.Process.Kill()\<close> and
    \<open>cmd.Wait()\<close>;
  \<^item> \<open>stdout\<close>, \<open>stderr\<close>: what the process has written when it is waited for.
\<close>

record os_env =
  LookPath :: "string \<Rightarrow> string option"
  launch_err :: "lib_error option"
  ctx_done_first :: bool
  kill_err :: "lib_error option"
  wait_err :: "lib_error option"
  stdout :: string
  stderr :: string

record Cmd =
  Path :: string
  Args :: "string list"
  Err :: "lib_error option"

text \<open>
  \<open>exec.Command\<close> (and \<open>exec.CommandContext\<close>) looks a name without a separator up
  at once and keeps the failure in the command:
  \<^verbatim>\<open>cmd := &Cmd{Path: name, Args: append([]string{name}, arg...)}
  if filepath.Base(name) == name {
      lp, err := LookPath(name)
      if lp != "" { cmd.Path = lp }
      if err != nil { cmd.Err = err } }\<close>
  where a failed \<open>LookPath(file)\<close> returns \<open>&Error{file, ErrNotFound}\<close>.
  \<open>Cmd.Start\<close> returns that stored error first, and otherwise launches the process.
\<close>

definition exec_LookPath :: "os_env \<Rightarrow> string \<Rightarrow> lib_error + string" where
  "exec_LookPath env file =
     (case LookPath env file of
        None \<Rightarrow> Inl (exec_Error file exec_ErrNotFound)
      | Some lp \<Rightarrow> Inr lp)"

definition exec_Command :: "os_env \<Rightarrow> string \<Rightarrow> string list \<Rightarrow> Cmd" where
  "exec_Command env name arg =
     (let cmd = \<lparr>Path = name, Args = name # arg, Err = None\<rparr>
      in if filepath_Base name = name then
           (case exec_LookPath env name of
              Inr lp \<Rightarrow> cmd\<lparr>Path := lp\<rparr>
            | Inl err \<Rightarrow> cmd\<lparr>Err := Some err\<rparr>)
         else cmd)"

definition Cmd_Start :: "os_env \<Rightarrow> Cmd \<Rightarrow> lib_error option" where
  "Cmd_Start env cmd = (case Err cmd of Some err \<Rightarrow> Some err | None \<Rightarrow> launch_err env)"

text \<open>
  \<open>Cmd.Run\<close> is \<open>Start\<close> followed by \<open>Wait\<close>; it yields the error and the two
  capture buffers, which stay empty when the process never started. A command made by
  \<open>exec.CommandContext\<close> is killed by the library when the context fires, and
  \<open>Wait\<close> then reports that as its error.
\<close>

definition Cmd_Run :: "os_env \<Rightarrow> Cmd \<Rightarrow> lib_error option \<times> string \<times> string" where
  "Cmd_Run env cmd =
     (case Cmd_Start env cmd of
        Some err \<Rightarrow> (Some err, [], [])
      | None \<Rightarrow> (wait_err env, stdout env, stderr env))"

text \<open>
  The calls a function makes on a process, in order: \<open>Start cmd\<close> for \<open>cmd.Start()\<close>
  (or the start inside \<open>cmd.Run()\<close>) and \<open>Kill\<close> for \<open>cmd.Process.Kill()\<close>.
\<close>

datatype os_event = Start Cmd | Kill

section \<open>The package\<close>

text \<open>
  The probe functions are those of the \<open>ffprobe\<close> source file; the \<open>ffmpeg\<close> source
  file is followed in its revision that has both the frame extraction and the MP4
  conversion (the revision without the conversion has the same extraction function).
\<close>

subsection \<open>Package-level variables and their setters\<close>

record ExtractingImagesOption =
  FrameRate :: string
  OutputWidth :: "uint option"
  OutputHeight :: "uint option"
  FilePath :: string

record MP4ConvertOption =
  Overwrite :: bool
  filePath :: string

record globals =
  ffprobeBinPath :: string
  ffmpegBinPath :: string
  extractingImageOption :: "ExtractingImagesOption option"
  mp4ConvertOption :: "MP4ConvertOption option"

definition init_globals :: globals where
  "init_globals =
     \<lparr>ffprobeBinPath = ''ffprobe'', ffmpegBinPath = ''ffmpeg'',
      extractingImageOption = None, mp4ConvertOption = None\<rparr>"

definition SetFFProbeBinPath :: "string \<Rightarrow> globals \<Rightarrow> globals" where
  "SetFFProbeBinPath newBinPath g = g\<lparr>ffprobeBinPath := newBinPath\<rparr>"

definition SetFFMPEGBinPath :: "string \<Rightarrow> globals \<Rightarrow> globals" where
  "SetFFMPEGBinPath newBinPath g = g\<lparr>ffmpegBinPath := newBinPath\<rparr>"

definition DefaultExtractingImagesOption :: "string \<Rightarrow> globals \<Rightarrow> globals" where
  "DefaultExtractingImagesOption path g =
     g\<lparr>extractingImageOption :=
         Some \<lparr>FrameRate = ''1'', OutputWidth = None, OutputHeight = None, FilePath = path\<rparr>\<rparr>"


definition DefaultMP4ConvertOption :: "string \<Rightarrow> globals \<Rightarrow> globals" where
  "DefaultMP4ConvertOption path g =
     g\<lparr>mp4ConvertOption := Some \<lparr>Overwrite = True, filePath = path\<rparr>\<rparr>"

definition NewMP4ConvertOption :: "MP4ConvertOption option \<Rightarrow> globals \<Rightarrow> globals" where
  "NewMP4ConvertOption option g = g\<lparr>mp4ConvertOption := option\<rparr>"

subsection \<open>Output names\<close>

definition resolveOutputFrameFileFormat :: "string \<Rightarrow> string" where
  "resolveOutputFrameFileFormat path =
     (let baseFileName = filepath_Base path
      in strings_TrimSuffix baseFileName (filepath_Ext baseFileName) @ ''-%03d.jpeg'')"

definition resolveOutputMP4FileFormat :: "string \<Rightarrow> string" where
  "resolveOutputMP4FileFormat path =
     (let baseFileName = filepath_Base path
      in strings_TrimSuffix baseFileName (filepath_Ext baseFileName) @ ''.mp4'')"

subsection \<open>Probing\<close>

text \<open>
  The struct \<open>ProbeData\<close> is declared in a file that is not among the sources, so its
  type is a parameter \<open>'pd\<close>, together with the two things the probe functions do with
  it: the zero value \<open>&ProbeData{}\<close> and \<open>json.Unmarshal\<close> into it, which returns the
  (possibly partly filled) value and the decoding error, if any.
\<close>

record 'pd ProbeData_type =
  zero_ProbeData :: 'pd
  json_Unmarshal :: "string \<Rightarrow> 'pd \<Rightarrow> 'pd \<times> lib_error option"

text \<open>
  Every function returns its Go results and the process calls it made. A nil
  \<open>*ProbeData\<close> is \<open>None\<close>, a nil error is \<open>None\<close>.
\<close>

definition GetProbeDataContext ::
  "globals \<Rightarrow> 'pd ProbeData_type \<Rightarrow> os_env \<Rightarrow> string \<Rightarrow>
   ('pd option \<times> go_error option) \<times> os_event list" where
  "GetProbeDataContext g pdt env path =
     (let cmd = exec_Command env (ffprobeBinPath g)
                  [''-v'', ''quiet'', ''-print_format'', ''json'',
                   ''-show_format'', ''-show_streams'', path]
      in case Cmd_Start env cmd of
           Some err \<Rightarrow>
             if err = exec_ErrNotFound then ((None, Some ErrFFProbeNotFound), [Start cmd])
             else ((None, Some (Lib err)), [Start cmd])
         | None \<Rightarrow>
             if ctx_done_first env then
               (case kill_err env of
                  None \<Rightarrow> ((None, Some ErrTimeout), [Start cmd, Kill])
                | Some err \<Rightarrow> ((None, Some (Lib err)), [Start cmd, Kill]))
             else
               (case wait_err env of
                  Some err \<Rightarrow> ((None, Some (Lib err)), [Start cmd])
                | None \<Rightarrow>
                    (case json_Unmarshal pdt (stdout env) (zero_ProbeData pdt) of
                       (data, Some err) \<Rightarrow> ((Some data, Some (Lib err)), [Start cmd])
                     | (data, None) \<Rightarrow> ((Some data, None), [Start cmd]))))"

definition GetProbeDataOptions ::
  "globals \<Rightarrow> 'pd ProbeData_type \<Rightarrow> os_env \<Rightarrow> string \<Rightarrow> string list \<Rightarrow>
   ('pd option \<times> go_error option) \<times> os_event list" where
  "GetProbeDataOptions g pdt env file extraFFProbeOptions =
     (let args = [''-loglevel'', ''fatal'', ''-print_format'', ''json'',
                  ''-show_format'', ''-show_streams''] @ extraFFProbeOptions;
          args = args @ [file];
          cmd = exec_Command env (ffprobeBinPath g) args
      in case Cmd_Run env cmd of
           (Some err, outputBuf, stdErr) \<Rightarrow>
             ((None, Some (Errorf ''error running ffprobe [%s] %w''
                             [ArgString stdErr, ArgError err])), [Start cmd])
         | (None, outputBuf, stdErr) \<Rightarrow>
             if stdErr \<noteq> [] then
               ((None, Some (Errorf ''ffprobe error: %s'' [ArgString stdErr])), [Start cmd])
             else
               (case json_Unmarshal pdt outputBuf (zero_ProbeData pdt) of
                  (data, Some err) \<Rightarrow>
                    ((Some data, Some (Errorf ''error unmarshalling output: %w'' [ArgError err])),
                     [Start cmd])
                | (data, None) \<Rightarrow> ((Some data, None), [Start cmd])))"

subsection \<open>Frame extraction and MP4 conversion\<close>

definition ExtractingImagesContext :: "globals \<Rightarrow> os_env \<Rightarrow> go_error option \<times> os_event list" where
  "ExtractingImagesContext g env =
     (case extractingImageOption g of
        None \<Rightarrow> (Some (Errorf ''option not set'' []), [])
      | Some opt \<Rightarrow>
          let outputFileFormat = resolveOutputFrameFileFormat (FilePath opt);
              resize = (OutputWidth opt \<noteq> None \<and> OutputHeight opt \<noteq> None);
              args =
                (if resize then
                   [''-i'', FilePath opt,
                    ''-r'', FrameRate opt,
                    ''-s'', Sprintf_dxd (the (OutputWidth opt)) (the (OutputHeight opt)),
                    ''-f'', ''image2'',
                    outputFileFormat]
                 else
                   [''-i'', FilePath opt,
                    ''-r'', FrameRate opt,
                    ''-f'', ''image2'',
                    outputFileFormat]);
              cmd = exec_Command env (ffmpegBinPath g) args
          in case Cmd_Start env cmd of
               Some err \<Rightarrow>
                 if err = exec_ErrNotFound then (Some ErrFFMPEGNotFound, [Start cmd])
                 else (Some (Lib err), [Start cmd])
             | None \<Rightarrow>
                 if ctx_done_first env then
                   (case kill_err env of
                      None \<Rightarrow> (Some ErrTimeout, [Start cmd, Kill])
                    | Some err \<Rightarrow> (Some (Lib err), [Start cmd, Kill]))
                 else
                   (case wait_err env of
                      Some err \<Rightarrow> (Some (Lib err), [Start cmd])
                    | None \<Rightarrow> (None, [Start cmd])))"

definition ConvertToMP4Context :: "globals \<Rightarrow> os_env \<Rightarrow> go_error option \<times> os_event list" where
  "ConvertToMP4Context g env =
     (case mp4ConvertOption g of
        None \<Rightarrow> (Some (Errorf ''option not set'' []), [])
      | Some opt \<Rightarrow>
          let outputFileFormat = resolveOutputMP4FileFormat (filePath opt);
              args = [''-i'', filePath opt, outputFileFormat];
              args = (if Overwrite opt then args @ [''-y''] else args);
              cmd = exec_Command env (ffmpegBinPath g) args
          in case Cmd_Start env cmd of
               Some err \<Rightarrow>
                 if err = exec_ErrNotFound then (Some ErrFFMPEGNotFound, [Start cmd])
                 else (Some (Lib err), [Start cmd])
             | None \<Rightarrow>
                 if ctx_done_first env then
                   (case kill_err env of
                      None \<Rightarrow> (Some ErrTimeout, [Start cmd, Kill])
                    | Some err \<Rightarrow> (Some (Lib err), [Start cmd, Kill]))
                 else
                   (case wait_err env of
                      Some err \<Rightarrow> (Some (Lib err), [Start cmd])
                    | None \<Rightarrow> (None, [Start cmd])))"

text \<open>
  \<open>GetProbeData\<close>, \<open>ExtractingImages\<close> and \<open>ConvertToMP4\<close> make a context with the
  given timeout and call the function above with it; the deadline is what lets
  \<open>ctx_done_first\<close> come true.
\<close>

section \<open>Reading a run\<close>

text \<open>
  The name and the arguments given to \<open>exec.Command\<close> for the first process a run
  starts, if it starts one.
\<close>

definition command_line :: "os_event list \<Rightarrow> (string \<times> string list) option" where
  "command_line evs =
     (case evs of
        Start cmd # _ \<Rightarrow> (case Args cmd of name # arg \<Rightarrow> Some (name, arg) | [] \<Rightarrow> None)
      | _ \<Rightarrow> None)"

text \<open>
  The process starts: the name is found when it is looked up, and the launch does not
  fail.
\<close>

definition process_starts :: "os_env \<Rightarrow> string \<Rightarrow> bool" where
  "process_starts env name =
     ((filepath_Base name = name \<longrightarrow> LookPath env name \<noteq> None) \<and> launch_err env = None)"

text \<open>
  What a cancelled run has to look like: the kill was attempted, the error is
  \<open>ErrTimeout\<close> exactly when the kill succeeded, and a failed kill's error is the
  result.
\<close>

definition cancelled_outcome :: "os_env \<Rightarrow> go_error option \<Rightarrow> os_event list \<Rightarrow> bool" where
  "cancelled_outcome env err evs =
     (Kill \<in> set evs \<and> (err = Some ErrTimeout \<longleftrightarrow> kill_err env = None) \<and>
      (\<forall>e. kill_err env = Some e \<longrightarrow> err = Some (Lib e)))"

subsection \<open>Sample runs\<close>

text \<open>
  Concrete inputs on which the theorems below are exercised: a decoder that accepts
  the empty JSON object only, environments for a clean run, a cancelled run, a cancelled
  run whose kill fails, a cancelled run as \<open>cmd.Run()\<close> sees it (the library has
  killed the process and \<open>Wait\<close> reports the signal), a machine without the binaries, a run that prints no JSON and one
  that also writes to standard error; and package states after the configuration
  helpers.
\<close>

definition sample_decoder :: "string ProbeData_type" where
  "sample_decoder =
     \<lparr>zero_ProbeData = [],
      json_Unmarshal = (\<lambda>s d. if s = ''{}'' then (s, None)
                              else (d, Some (other_error ''invalid character'')))\<rparr>"

definition env_ok :: os_env where
  "env_ok =
     \<lparr>LookPath = (\<lambda>name. Some (''/usr/bin/'' @ name)), launch_err = None,
      ctx_done_first = False, kill_err = None, wait_err = None,
      stdout = ''{}'', stderr = []\<rparr>"

definition env_cancelled :: os_env where
  "env_cancelled = env_ok\<lparr>ctx_done_first := True, stdout := []\<rparr>"

definition env_kill_fails :: os_env where
  "env_kill_fails =
     env_cancelled\<lparr>kill_err := Some (other_error ''os: process already finished'')\<rparr>"

definition env_library_kill :: os_env where
  "env_library_kill = env_cancelled\<lparr>wait_err := Some (other_error ''signal: killed'')\<rparr>"

definition env_no_binary :: os_env where
  "env_no_binary = env_ok\<lparr>LookPath := (\<lambda>name. None), stdout := []\<rparr>"

definition env_bad_json :: os_env where
  "env_bad_json = env_ok\<lparr>stdout := ''not json''\<rparr>"

definition env_stderr_noise :: os_env where
  "env_stderr_noise = env_bad_json\<lparr>stderr := ''deprecated pixel format''\<rparr>"

definition demo_globals :: globals where
  "demo_globals =
     DefaultMP4ConvertOption ''clip.mov'' (DefaultExtractingImagesOption ''intro.mp4'' init_globals)"



definition keep_globals :: globals where
  "keep_globals =
     NewMP4ConvertOption (Some \<lparr>Overwrite = False, filePath = ''media/target.mov''\<rparr>) init_globals"

section \<open>Auxiliary facts\<close>

subsection \<open>Extensions and base names\<close>

lemma Ext_loop_shape:
  "Ext_loop r t \<noteq> [] \<Longrightarrow>
   \<exists>u r'. r = u @ CHR ''.'' # r' \<and> (\<forall>c \<in> set u. \<not> IsPathSeparator c \<and> c \<noteq> CHR ''.'') \<and>
          Ext_loop r t = CHR ''.'' # rev u @ t"
proof (induction r arbitrary: t)
  case Nil
  then show ?case by simp
next
  case (Cons c r)
  show ?case
  proof (cases "IsPathSeparator c")
    case True
    with Cons.prems show ?thesis by simp
  next
    case sep: False
    show ?thesis
    proof (cases "c = CHR ''.''")
      case True
      with sep have "c # r = [] @ CHR ''.'' # r \<and> Ext_loop (c # r) t = CHR ''.'' # rev [] @ t"
        by simp
      then show ?thesis by (metis empty_iff list.set(1))
    next
      case False
      with sep Cons.prems have "Ext_loop r (c # t) \<noteq> []" by simp
      from Cons.IH [OF this] obtain u r' where
        u: "r = u @ CHR ''.'' # r'" "\<forall>c \<in> set u. \<not> IsPathSeparator c \<and> c \<noteq> CHR ''.''"
           "Ext_loop r (c # t) = CHR ''.'' # rev u @ c # t" by blast
      have "c # r = (c # u) @ CHR ''.'' # r'" using u(1) by simp
      moreover have "\<forall>d \<in> set (c # u). \<not> IsPathSeparator d \<and> d \<noteq> CHR ''.''"
        using u(2) sep False by simp
      moreover have "Ext_loop (c # r) t = CHR ''.'' # rev (c # u) @ t"
        using u(3) sep False by simp
      ultimately show ?thesis by blast
    qed
  qed
qed

lemma Ext_loop_found:
  "(\<forall>c \<in> set u. \<not> IsPathSeparator c \<and> c \<noteq> CHR ''.'') \<Longrightarrow>
   Ext_loop (u @ CHR ''.'' # r') t = CHR ''.'' # rev u @ t"
  by (induction u arbitrary: t) (simp_all add: IsPathSeparator_def)

lemma strings_TrimSuffix_append: "strings_TrimSuffix (stem @ e) e = stem"
  by (simp add: strings_TrimSuffix_def strings_HasSuffix_def)

lemma filepath_Ext_split:
  assumes "filepath_Ext p = e" and "e \<noteq> []"
  shows "\<exists>q v. p = q @ CHR ''.'' # v \<and> e = CHR ''.'' # v \<and>
               (\<forall>c \<in> set v. \<not> IsPathSeparator c \<and> c \<noteq> CHR ''.'')"
proof -
  from assms have "Ext_loop (rev p) [] \<noteq> []" by (simp add: filepath_Ext_def)
  from Ext_loop_shape [OF this] obtain u r' where
    u: "rev p = u @ CHR ''.'' # r'" "\<forall>c \<in> set u. \<not> IsPathSeparator c \<and> c \<noteq> CHR ''.''"
       "Ext_loop (rev p) [] = CHR ''.'' # rev u @ []" by blast
  from u(1) have "rev (rev p) = rev (u @ CHR ''.'' # r')" by simp
  then have "p = rev r' @ CHR ''.'' # rev u" by simp
  moreover have "e = CHR ''.'' # rev u" using u(3) assms(1) by (simp add: filepath_Ext_def)
  moreover have "\<forall>c \<in> set (rev u). \<not> IsPathSeparator c \<and> c \<noteq> CHR ''.''" using u(2) by simp
  ultimately show ?thesis by blast
qed

lemma filepath_Base_with_ext:
  assumes v: "\<forall>c \<in> set v. \<not> IsPathSeparator c \<and> c \<noteq> CHR ''.''"
  shows "filepath_Base (q @ CHR ''.'' # v) =
         rev (takeWhile (\<lambda>c. \<not> IsPathSeparator c) (rev q)) @ CHR ''.'' # v"
proof -
  let ?p = "q @ CHR ''.'' # v"
  have rp: "rev ?p = (rev v @ [CHR ''.'']) @ rev q" by simp
  have nosep: "\<forall>c \<in> set (rev v @ [CHR ''.'']). \<not> IsPathSeparator c"
    using v by (simp add: IsPathSeparator_def)
  have "rev v @ [CHR ''.''] \<noteq> []" by simp
  then obtain h tl where htl: "rev v @ [CHR ''.''] = h # tl" by (cases "rev v @ [CHR ''.'']") auto
  with nosep have "\<not> IsPathSeparator h" by (metis list.set_intros(1))
  then have strip: "dropWhile IsPathSeparator (rev ?p) = rev ?p"
    using rp htl by simp
  have tw: "takeWhile (\<lambda>c. \<not> IsPathSeparator c) (rev ?p) =
            (rev v @ [CHR ''.'']) @ takeWhile (\<lambda>c. \<not> IsPathSeparator c) (rev q)"
    unfolding rp by (rule takeWhile_append2) (use nosep in auto)
  show ?thesis
    unfolding filepath_Base_def Let_def strip rev_rev_ident tw by simp
qed

lemma Base_bare_names:
  "filepath_Base ''ffprobe'' = ''ffprobe''" "filepath_Base ''ffmpeg'' = ''ffmpeg''"
  by (simp_all add: filepath_Base_def IsPathSeparator_def)


lemma resolve_samples:
  "resolveOutputFrameFileFormat ''media/intro.mp4'' = ''intro-%03d.jpeg''"
  "resolveOutputMP4FileFormat ''media/target.mov'' = ''target.mp4''"
  "resolveOutputMP4FileFormat ''clip.mov'' = ''clip.mp4''"
  by (simp_all add: resolveOutputFrameFileFormat_def resolveOutputMP4FileFormat_def
        filepath_Base_def filepath_Ext_def strings_TrimSuffix_def strings_HasSuffix_def
        IsPathSeparator_def)

subsection \<open>Starting a command\<close>

lemma exec_Command_Args: "Args (exec_Command env name arg) = name # arg"
  by (simp add: exec_Command_def Let_def split: sum.splits)

lemma process_starts_Start:
  "process_starts env name \<Longrightarrow> Cmd_Start env (exec_Command env name arg) = None"
  by (auto simp: process_starts_def Cmd_Start_def exec_Command_def exec_LookPath_def Let_def
           split: option.splits sum.splits)

lemma Start_None_process_starts:
  "Cmd_Start env (exec_Command env name arg) = None \<Longrightarrow> process_starts env name"
  by (auto simp: process_starts_def Cmd_Start_def exec_Command_def exec_LookPath_def Let_def
           split: option.splits sum.splits if_splits)

lemma not_found_Start:
  "filepath_Base name = name \<Longrightarrow> LookPath env name = None \<Longrightarrow>
   Cmd_Start env (exec_Command env name arg) = Some (exec_Error name exec_ErrNotFound)"
  by (simp add: Cmd_Start_def exec_Command_def exec_LookPath_def Let_def)

subsection \<open>The sample runs\<close>

lemma demo_simps:
  "ffprobeBinPath demo_globals = ''ffprobe''" "ffmpegBinPath demo_globals = ''ffmpeg''"
  "extractingImageOption demo_globals =
     Some \<lparr>FrameRate = ''1'', OutputWidth = None, OutputHeight = None, FilePath = ''intro.mp4''\<rparr>"
  "mp4ConvertOption demo_globals = Some \<lparr>Overwrite = True, filePath = ''clip.mov''\<rparr>"
  by (simp_all add: demo_globals_def DefaultMP4ConvertOption_def
        DefaultExtractingImagesOption_def init_globals_def)

lemma starts_simps:
  "process_starts env_ok ''ffprobe''" "process_starts env_ok ''ffmpeg''"
  "process_starts env_cancelled ''ffprobe''" "process_starts env_cancelled ''ffmpeg''"
  "process_starts env_kill_fails ''ffprobe''" "process_starts env_kill_fails ''ffmpeg''"
  "process_starts env_bad_json ''ffprobe''" "process_starts env_stderr_noise ''ffprobe''"
  "process_starts env_library_kill ''ffprobe''"
  by (simp_all add: process_starts_def env_ok_def env_cancelled_def env_kill_fails_def
        env_bad_json_def env_stderr_noise_def env_library_kill_def)


subsection \<open>Start failures\<close>

lemma Cmd_Start_any_args:
  "Cmd_Start env (exec_Command env name arg) = Cmd_Start env (exec_Command env name [])"
  by (simp add: Cmd_Start_def exec_Command_def Let_def split: sum.splits)

text \<open>
  How the three racing functions classify a failed \<open>cmd.Start()\<close>: the sentinel
  \<open>exec.ErrNotFound\<close> itself becomes the package's own error, anything else is
  returned as it is.
\<close>

lemma start_failure_results:
  assumes "Cmd_Start env (exec_Command env name []) = Some err"
  shows "name = ffprobeBinPath g \<Longrightarrow>
           GetProbeDataContext g pdt env path =
             ((None, Some (if err = exec_ErrNotFound then ErrFFProbeNotFound else Lib err)),
              [Start (exec_Command env name
                 [''-v'', ''quiet'', ''-print_format'', ''json'',
                  ''-show_format'', ''-show_streams'', path])])"
    and "name = ffmpegBinPath g \<Longrightarrow> extractingImageOption g \<noteq> None \<Longrightarrow>
           fst (ExtractingImagesContext g env) =
             Some (if err = exec_ErrNotFound then ErrFFMPEGNotFound else Lib err)"
    and "name = ffmpegBinPath g \<Longrightarrow> mp4ConvertOption g \<noteq> None \<Longrightarrow>
           fst (ConvertToMP4Context g env) =
             Some (if err = exec_ErrNotFound then ErrFFMPEGNotFound else Lib err)"
proof -
  have s: "Cmd_Start env (exec_Command env name arg) = Some err" for arg
    using assms Cmd_Start_any_args [of env name arg] by simp
  show "name = ffprobeBinPath g \<Longrightarrow>
           GetProbeDataContext g pdt env path =
             ((None, Some (if err = exec_ErrNotFound then ErrFFProbeNotFound else Lib err)),
              [Start (exec_Command env name
                 [''-v'', ''quiet'', ''-print_format'', ''json'',
                  ''-show_format'', ''-show_streams'', path])])"
    using s by (simp add: GetProbeDataContext_def Let_def)
  show "name = ffmpegBinPath g \<Longrightarrow> extractingImageOption g \<noteq> None \<Longrightarrow>
           fst (ExtractingImagesContext g env) =
             Some (if err = exec_ErrNotFound then ErrFFMPEGNotFound else Lib err)"
    using s by (auto simp: ExtractingImagesContext_def Let_def)
  show "name = ffmpegBinPath g \<Longrightarrow> mp4ConvertOption g \<noteq> None \<Longrightarrow>
           fst (ConvertToMP4Context g env) =
             Some (if err = exec_ErrNotFound then ErrFFMPEGNotFound else Lib err)"
    using s by (auto simp: ConvertToMP4Context_def Let_def)
qed

text \<open>
  A name that the path search does not find makes \<open>cmd.Start()\<close> return the wrapper
  \<open>*exec.Error\<close>, which is not the sentinel: each function hands the wrapper on.
\<close>

lemma missing_binary_results:
  assumes "filepath_Base name = name" and "LookPath env name = None"
  shows "name = ffprobeBinPath g \<Longrightarrow>
           fst (GetProbeDataContext g pdt env path) =
             (None, Some (Lib (exec_Error name exec_ErrNotFound)))"
    and "name = ffmpegBinPath g \<Longrightarrow> extractingImageOption g \<noteq> None \<Longrightarrow>
           fst (ExtractingImagesContext g env) = Some (Lib (exec_Error name exec_ErrNotFound))"
    and "name = ffmpegBinPath g \<Longrightarrow> mp4ConvertOption g \<noteq> None \<Longrightarrow>
           fst (ConvertToMP4Context g env) = Some (Lib (exec_Error name exec_ErrNotFound))"
    and "name = ffprobeBinPath g \<Longrightarrow>
           fst (GetProbeDataOptions g pdt env file extraFFProbeOptions) =
             (None, Some (Errorf ''error running ffprobe [%s] %w''
                            [ArgString [], ArgError (exec_Error name exec_ErrNotFound)]))"
proof -
  note s = not_found_Start [OF assms]
  show "name = ffprobeBinPath g \<Longrightarrow>
           fst (GetProbeDataContext g pdt env path) =
             (None, Some (Lib (exec_Error name exec_ErrNotFound)))"
    using start_failure_results(1) [OF s, of g pdt path] by simp
  show "name = ffmpegBinPath g \<Longrightarrow> extractingImageOption g \<noteq> None \<Longrightarrow>
           fst (ExtractingImagesContext g env) = Some (Lib (exec_Error name exec_ErrNotFound))"
    using start_failure_results(2) [OF s, of g] by simp
  show "name = ffmpegBinPath g \<Longrightarrow> mp4ConvertOption g \<noteq> None \<Longrightarrow>
           fst (ConvertToMP4Context g env) = Some (Lib (exec_Error name exec_ErrNotFound))"
    using start_failure_results(3) [OF s, of g] by simp
  show "name = ffprobeBinPath g \<Longrightarrow>
           fst (GetProbeDataOptions g pdt env file extraFFProbeOptions) =
             (None, Some (Errorf ''error running ffprobe [%s] %w''
                            [ArgString [], ArgError (exec_Error name exec_ErrNotFound)]))"
    using s by (simp add: GetProbeDataOptions_def Cmd_Run_def Let_def)
qed

text \<open>
  \<open>GetProbeDataOptions\<close> leaves the race to \<open>exec.CommandContext\<close>: whatever makes
  \<open>cmd.Run()\<close> fail, a cancellation included, comes back wrapped by \<open>fmt.Errorf\<close>,
  never as one of the package's sentinels.
\<close>

lemma GetProbeDataOptions_no_sentinel:
  "snd (fst (GetProbeDataOptions g pdt env file extraFFProbeOptions)) \<notin>
     {Some ErrTimeout, Some ErrFFProbeNotFound, Some ErrFFMPEGNotFound}"
  by (simp add: GetProbeDataOptions_def Cmd_Run_def Let_def split: option.splits prod.splits)

section \<open>The claims\<close>

text \<open>
  C1, as stated, fails for one of the probe functions. \<open>GetProbeDataOptions\<close> does not
  race the process itself: in a run where the context fires first and the process is
  killed, \<open>cmd.Run()\<close> reports the killed process and the call returns that error
  wrapped as \<open>error running ffprobe\<close>, not \<open>ErrTimeout\<close>.
\<close>

theorem cancelled_probe_options_not_timeout:
  "process_starts env_library_kill (ffprobeBinPath init_globals) \<and>
   ctx_done_first env_library_kill \<and> kill_err env_library_kill = None \<and>
   snd (fst (GetProbeDataOptions init_globals sample_decoder env_library_kill ''intro.mp4'' [])) =
     Some (Errorf ''error running ffprobe [%s] %w''
             [ArgString [], ArgError (other_error ''signal: killed'')]) \<and>
   snd (fst (GetProbeDataOptions init_globals sample_decoder env_library_kill ''intro.mp4'' []))
     \<noteq> Some ErrTimeout"
proof -
  have f: "ctx_done_first env_library_kill" "kill_err env_library_kill = None"
    "wait_err env_library_kill = Some (other_error ''signal: killed'')"
    "stderr env_library_kill = []"
    by (simp_all add: env_library_kill_def env_cancelled_def env_ok_def)
  have p: "ffprobeBinPath init_globals = ''ffprobe''" by (simp add: init_globals_def)
  show ?thesis
    by (simp add: f p starts_simps GetProbeDataOptions_def Cmd_Run_def Let_def
          process_starts_Start)
qed

text \<open>
  C1, amended. In every run of \<open>GetProbeDataContext\<close>, \<open>ExtractingImagesContext\<close> or
  \<open>ConvertToMP4Context\<close> whose process started and in which the context fires before
  the process is reported finished (the \<open>select\<close> takes \<open><-ctx.Done()\<close>), the function
  calls \<open>cmd.Process.Kill()\<close>; it returns \<open>ErrTimeout\<close> if and only if the kill
  succeeded, and the kill's own error when the kill failed (the probe returns no data
  then). \<open>GetProbeDataOptions\<close> never returns \<open>ErrTimeout\<close>: an error \<open>e\<close> of
  \<open>cmd.Run()\<close>, a cancellation included, comes back as \<open>error running ffprobe\<close>
  around \<open>e\<close>, with no data.
\<close>

theorem cancellation_kill_then_timeout:
  assumes "ctx_done_first env"
  shows "(process_starts env (ffprobeBinPath g) \<longrightarrow>
            cancelled_outcome env (snd (fst (GetProbeDataContext g pdt env path)))
              (snd (GetProbeDataContext g pdt env path)) \<and>
            fst (fst (GetProbeDataContext g pdt env path)) = None) \<and>
         (extractingImageOption g \<noteq> None \<and> process_starts env (ffmpegBinPath g) \<longrightarrow>
            cancelled_outcome env (fst (ExtractingImagesContext g env))
              (snd (ExtractingImagesContext g env))) \<and>
         (mp4ConvertOption g \<noteq> None \<and> process_starts env (ffmpegBinPath g) \<longrightarrow>
            cancelled_outcome env (fst (ConvertToMP4Context g env))
              (snd (ConvertToMP4Context g env))) \<and>
         snd (fst (GetProbeDataOptions g pdt env file extraFFProbeOptions)) \<noteq> Some ErrTimeout \<and>
         (\<forall>e. process_starts env (ffprobeBinPath g) \<and> wait_err env = Some e \<longrightarrow>
            fst (GetProbeDataOptions g pdt env file extraFFProbeOptions) =
              (None, Some (Errorf ''error running ffprobe [%s] %w''
                             [ArgString (stderr env), ArgError e])))"
proof (intro conjI impI allI)
  assume "process_starts env (ffprobeBinPath g)"
  then show "cancelled_outcome env (snd (fst (GetProbeDataContext g pdt env path)))
              (snd (GetProbeDataContext g pdt env path))"
    using assms
    by (simp add: GetProbeDataContext_def Let_def process_starts_Start cancelled_outcome_def
             split: option.splits)
next
  assume "process_starts env (ffprobeBinPath g)"
  then show "fst (fst (GetProbeDataContext g pdt env path)) = None"
    using assms
    by (simp add: GetProbeDataContext_def Let_def process_starts_Start split: option.splits)
next
  assume "extractingImageOption g \<noteq> None \<and> process_starts env (ffmpegBinPath g)"
  then show "cancelled_outcome env (fst (ExtractingImagesContext g env))
              (snd (ExtractingImagesContext g env))"
    using assms
    by (auto simp: ExtractingImagesContext_def Let_def process_starts_Start cancelled_outcome_def
             split: option.splits)
next
  assume "mp4ConvertOption g \<noteq> None \<and> process_starts env (ffmpegBinPath g)"
  then show "cancelled_outcome env (fst (ConvertToMP4Context g env))
              (snd (ConvertToMP4Context g env))"
    using assms
    by (auto simp: ConvertToMP4Context_def Let_def process_starts_Start cancelled_outcome_def
             split: option.splits)
next
  show "snd (fst (GetProbeDataOptions g pdt env file extraFFProbeOptions)) \<noteq> Some ErrTimeout"
    using GetProbeDataOptions_no_sentinel [of g pdt env "file" extraFFProbeOptions] by auto
next
  fix e
  assume "process_starts env (ffprobeBinPath g) \<and> wait_err env = Some e"
  then show "fst (GetProbeDataOptions g pdt env file extraFFProbeOptions) =
              (None, Some (Errorf ''error running ffprobe [%s] %w''
                             [ArgString (stderr env), ArgError e]))"
    by (simp add: GetProbeDataOptions_def Cmd_Run_def Let_def process_starts_Start)
qed

text \<open>
  The theorem at a cancelled run whose kill succeeds and at one whose kill fails.
\<close>

theorem cancellation_kill_then_timeout_witness:
  "ctx_done_first env_cancelled \<and> ctx_done_first env_kill_fails \<and>
   process_starts env_cancelled (ffprobeBinPath demo_globals) \<and>
   process_starts env_kill_fails (ffmpegBinPath demo_globals) \<and>
   extractingImageOption demo_globals \<noteq> None \<and> mp4ConvertOption demo_globals \<noteq> None \<and>
   snd (fst (GetProbeDataContext demo_globals sample_decoder env_cancelled ''intro.mp4'')) =
     Some ErrTimeout \<and>
   fst (ExtractingImagesContext demo_globals env_cancelled) = Some ErrTimeout \<and>
   fst (ConvertToMP4Context demo_globals env_cancelled) = Some ErrTimeout \<and>
   Kill \<in> set (snd (ConvertToMP4Context demo_globals env_kill_fails)) \<and>
   fst (ConvertToMP4Context demo_globals env_kill_fails) =
     Some (Lib (other_error ''os: process already finished''))"
proof -
  have c: "ctx_done_first env_cancelled" "kill_err env_cancelled = None"
    by (simp_all add: env_cancelled_def env_ok_def)
  have k: "ctx_done_first env_kill_fails"
    "kill_err env_kill_fails = Some (other_error ''os: process already finished'')"
    by (simp_all add: env_kill_fails_def env_cancelled_def env_ok_def)
  note a = cancellation_kill_then_timeout
    [OF c(1), of demo_globals sample_decoder "''intro.mp4''" "''intro.mp4''" "[]"]
  note b = cancellation_kill_then_timeout
    [OF k(1), of demo_globals sample_decoder "''intro.mp4''" "''intro.mp4''" "[]"]
  from a b show ?thesis
    by (simp add: cancelled_outcome_def demo_simps starts_simps c k)
qed

text \<open>
  C2. The claim: when the configured executable is not on the search path, the probe,
  the frame extraction and the MP4 conversion fail with \<open>ErrFFProbeNotFound\<close> or
  \<open>ErrFFMPEGNotFound\<close>. The code compares the start error with the sentinel by
  \<open>==\<close>, but the path search reports a missing file as \<open>*exec.Error\<close> around the
  sentinel, so the comparison is false and the wrapper is returned. Evaluated on a
  machine where neither \<open>ffprobe\<close> nor \<open>ffmpeg\<close> is found:
\<close>

theorem missing_binary_returns_lookup_error:
  "LookPath env_no_binary ''ffprobe'' = None \<and> LookPath env_no_binary ''ffmpeg'' = None \<and>
   fst (GetProbeDataContext demo_globals sample_decoder env_no_binary ''intro.mp4'') =
     (None, Some (Lib (exec_Error ''ffprobe'' exec_ErrNotFound))) \<and>
   fst (ExtractingImagesContext demo_globals env_no_binary) =
     Some (Lib (exec_Error ''ffmpeg'' exec_ErrNotFound)) \<and>
   fst (ConvertToMP4Context demo_globals env_no_binary) =
     Some (Lib (exec_Error ''ffmpeg'' exec_ErrNotFound))"
  by (simp add: env_no_binary_def env_ok_def GetProbeDataContext_def ExtractingImagesContext_def
        ConvertToMP4Context_def Let_def demo_simps Base_bare_names not_found_Start)

text \<open>
  C3. Called while its option variable is nil, \<open>ExtractingImagesContext\<close> (and
  likewise \<open>ConvertToMP4Context\<close>) returns the error \<open>option not set\<close> and makes no
  call on any process: nothing is started.
\<close>

theorem unset_option_not_configured:
  "(extractingImageOption g = None \<longrightarrow>
      ExtractingImagesContext g env = (Some (Errorf ''option not set'' []), [])) \<and>
   (mp4ConvertOption g = None \<longrightarrow>
      ConvertToMP4Context g env = (Some (Errorf ''option not set'' []), []))"
  by (simp add: ExtractingImagesContext_def ConvertToMP4Context_def)

theorem unset_option_not_configured_witness:
  "extractingImageOption init_globals = None \<and> mp4ConvertOption init_globals = None \<and>
   ExtractingImagesContext init_globals env_ok = (Some (Errorf ''option not set'' []), []) \<and>
   ConvertToMP4Context init_globals env_ok = (Some (Errorf ''option not set'' []), [])"
  using unset_option_not_configured [of init_globals env_ok] by (simp add: init_globals_def)

text \<open>
  C4. For a path \<open>p\<close> whose extension (\<open>filepath.Ext\<close>) is a non-empty \<open>ext\<close>: \<open>p\<close> is
  a directory part, a stem without separator and \<open>ext\<close>; its base name is the stem
  followed by \<open>ext\<close>; the frame pattern is the stem followed by \<open>-%03d.jpeg\<close> and the
  conversion output is the stem followed by \<open>.mp4\<close>.
\<close>

theorem output_names_strip_extension:
  assumes "filepath_Ext p = ext" and "ext \<noteq> []"
  shows "\<exists>dir stem. p = dir @ stem @ ext \<and> (dir = [] \<or> last dir = CHR ''/'') \<and>
           CHR ''/'' \<notin> set (stem @ ext) \<and>
           filepath_Base p = stem @ ext \<and>
           resolveOutputFrameFileFormat p = stem @ ''-%03d.jpeg'' \<and>
           resolveOutputMP4FileFormat p = stem @ ''.mp4''"
proof -
  from filepath_Ext_split [OF assms] obtain q v where
    qv: "p = q @ CHR ''.'' # v" "ext = CHR ''.'' # v"
        "\<forall>c \<in> set v. \<not> IsPathSeparator c \<and> c \<noteq> CHR ''.''" by blast
  define stem where "stem = rev (takeWhile (\<lambda>c. \<not> IsPathSeparator c) (rev q))"
  define dir where "dir = rev (dropWhile (\<lambda>c. \<not> IsPathSeparator c) (rev q))"
  have q: "q = dir @ stem"
  proof -
    have "q = rev (takeWhile (\<lambda>c. \<not> IsPathSeparator c) (rev q) @
                   dropWhile (\<lambda>c. \<not> IsPathSeparator c) (rev q))"
      by (simp only: takeWhile_dropWhile_id rev_rev_ident)
    then show ?thesis unfolding stem_def dir_def by (simp only: rev_append)
  qed
  have base: "filepath_Base p = stem @ ext"
    unfolding qv(1,2) stem_def by (rule filepath_Base_with_ext [OF qv(3)])
  have stem_nosep: "CHR ''/'' \<notin> set stem"
  proof
    assume "CHR ''/'' \<in> set stem"
    then have "CHR ''/'' \<in> set (takeWhile (\<lambda>c. \<not> IsPathSeparator c) (rev q))"
      by (simp add: stem_def)
    then have "\<not> IsPathSeparator CHR ''/''" by (rule set_takeWhileD [THEN conjunct2])
    then show False by (simp add: IsPathSeparator_def)
  qed
  have ext_nosep: "CHR ''/'' \<notin> set ext"
    using qv(2,3) by (auto simp: IsPathSeparator_def)
  have dir_last: "dir = [] \<or> last dir = CHR ''/''"
  proof (cases "dropWhile (\<lambda>c. \<not> IsPathSeparator c) (rev q)")
    case Nil
    then show ?thesis by (simp add: dir_def)
  next
    case (Cons h t)
    then have "\<not> \<not> IsPathSeparator h" by (metis hd_dropWhile list.sel(1) list.distinct(1))
    then have "h = CHR ''/''" by (simp add: IsPathSeparator_def)
    then show ?thesis using Cons by (simp add: dir_def)
  qed
  have ext_base: "filepath_Ext (stem @ ext) = ext"
    unfolding qv(2) filepath_Ext_def using Ext_loop_found [of "rev v" "rev stem" "[]"] qv(3)
    by simp
  have frame: "resolveOutputFrameFileFormat p = stem @ ''-%03d.jpeg''"
    unfolding resolveOutputFrameFileFormat_def Let_def base ext_base strings_TrimSuffix_append ..
  have mp4: "resolveOutputMP4FileFormat p = stem @ ''.mp4''"
    unfolding resolveOutputMP4FileFormat_def Let_def base ext_base strings_TrimSuffix_append ..
  have "p = dir @ stem @ ext" using qv(1,2) q by simp
  with dir_last stem_nosep ext_nosep base frame mp4 show ?thesis by auto
qed

theorem output_names_strip_extension_witness:
  "filepath_Ext ''/videos/intro.mp4'' = ''.mp4'' \<and>
   resolveOutputFrameFileFormat ''/videos/intro.mp4'' = ''intro-%03d.jpeg'' \<and>
   resolveOutputMP4FileFormat ''/videos/intro.mp4'' = ''intro.mp4''"
proof -
  have e: "filepath_Ext ''/videos/intro.mp4'' = ''.mp4''"
    by (simp add: filepath_Ext_def IsPathSeparator_def)
  have b: "filepath_Base ''/videos/intro.mp4'' = ''intro.mp4''"
    by (simp add: filepath_Base_def IsPathSeparator_def)
  from output_names_strip_extension [OF e] obtain stem where
    s: "filepath_Base ''/videos/intro.mp4'' = stem @ ''.mp4''"
       "resolveOutputFrameFileFormat ''/videos/intro.mp4'' = stem @ ''-%03d.jpeg''"
       "resolveOutputMP4FileFormat ''/videos/intro.mp4'' = stem @ ''.mp4''" by auto
  from s(1) b have "stem @ ''.mp4'' = ''intro'' @ ''.mp4''" by simp
  then have "stem = ''intro''" by (simp only: append_same_eq)
  with e s show ?thesis by simp
qed



text \<open>
  C6. With the conversion option set, the arguments given to the \<open>ffmpeg\<close> command are
  \<open>-i <input> <basename>.mp4\<close>, followed by \<open>-y\<close> exactly when \<open>Overwrite\<close> is
  set.
\<close>

theorem conversion_argument_list:
  assumes "mp4ConvertOption g = Some opt"
  shows "command_line (snd (ConvertToMP4Context g env)) =
           Some (ffmpegBinPath g,
                 [''-i'', filePath opt, resolveOutputMP4FileFormat (filePath opt)] @
                 (if Overwrite opt then [''-y''] else []))"
  using assms
  by (simp add: ConvertToMP4Context_def Let_def command_line_def exec_Command_Args
        split: option.splits)

theorem conversion_argument_list_witness:
  "command_line (snd (ConvertToMP4Context keep_globals env_ok)) =
     Some (''ffmpeg'', [''-i'', ''media/target.mov'', ''target.mp4'']) \<and>
   command_line (snd (ConvertToMP4Context demo_globals env_ok)) =
     Some (''ffmpeg'', [''-i'', ''clip.mov'', ''clip.mp4'', ''-y''])"
proof -
  have k: "mp4ConvertOption keep_globals =
             Some \<lparr>Overwrite = False, filePath = ''media/target.mov''\<rparr>"
    by (simp add: keep_globals_def NewMP4ConvertOption_def)
  have b: "ffmpegBinPath keep_globals = ''ffmpeg''"
    by (simp add: keep_globals_def NewMP4ConvertOption_def init_globals_def)
  from conversion_argument_list [OF k, of env_ok]
    conversion_argument_list [OF demo_simps(4), of env_ok]
  show ?thesis
    by (simp add: b demo_simps resolve_samples)
qed




text \<open>
  C8. When the process of \<open>GetProbeDataOptions\<close> started and exited with status
  zero (\<open>cmd.Run()\<close> returns nil) but wrote a non-empty text to standard error, the
  call returns a nil result and the error \<open>ffprobe error: <text>\<close>.
\<close>

theorem stderr_text_is_execution_failure:
  assumes "process_starts env (ffprobeBinPath g)" and "wait_err env = None"
    and "stderr env \<noteq> []"
  shows "fst (GetProbeDataOptions g pdt env file extraFFProbeOptions) =
           (None, Some (Errorf ''ffprobe error: %s'' [ArgString (stderr env)]))"
  using assms
  by (simp add: GetProbeDataOptions_def Cmd_Run_def Let_def process_starts_Start)

theorem stderr_text_is_execution_failure_witness:
  "fst (GetProbeDataOptions init_globals sample_decoder (env_ok\<lparr>stderr := ''warning''\<rparr>)
          ''intro.mp4'' [''-select_streams'', ''v'']) =
     (None, Some (Errorf ''ffprobe error: %s'' [ArgString ''warning'']))"
proof -
  let ?env = "env_ok\<lparr>stderr := ''warning''\<rparr>"
  have s: "process_starts ?env (ffprobeBinPath init_globals)"
    by (simp add: init_globals_def process_starts_def env_ok_def)
  have w: "wait_err ?env = None" by (simp add: env_ok_def)
  have e: "stderr ?env \<noteq> []" by simp
  from stderr_text_is_execution_failure
    [OF s w e, of sample_decoder "''intro.mp4''" "[''-select_streams'', ''v'']"]
  show ?thesis by simp
qed

text \<open>
  C9. \<open>DefaultExtractingImagesOption p\<close> installs the option with frame rate \<open>1\<close>, no
  width, no height and the path \<open>p\<close>; an extraction run in that state gives
  \<open>ffmpeg\<close> the seven arguments \<open>-i p -r 1 -f image2 <basename>-%03d.jpeg\<close>, with no
  resize argument among them.
\<close>

theorem default_extraction_option_no_resize:
  "extractingImageOption (DefaultExtractingImagesOption p g) =
     Some \<lparr>FrameRate = ''1'', OutputWidth = None, OutputHeight = None, FilePath = p\<rparr> \<and>
   command_line (snd (ExtractingImagesContext (DefaultExtractingImagesOption p g) env)) =
     Some (ffmpegBinPath g,
           [''-i'', p, ''-r'', ''1'', ''-f'', ''image2'', resolveOutputFrameFileFormat p])"
  by (simp add: DefaultExtractingImagesOption_def ExtractingImagesContext_def Let_def
        command_line_def exec_Command_Args split: option.splits)

text \<open>
  C10. \<open>DefaultMP4ConvertOption p\<close> installs the option with \<open>Overwrite\<close> true and the
  path \<open>p\<close>; a conversion run in that state gives \<open>ffmpeg\<close> the arguments
  \<open>-i p <basename>.mp4 -y\<close>, the last one being the flag that makes \<open>ffmpeg\<close>
  overwrite an existing output file.
\<close>

theorem default_conversion_option_overwrites:
  "mp4ConvertOption (DefaultMP4ConvertOption p g) = Some \<lparr>Overwrite = True, filePath = p\<rparr> \<and>
   command_line (snd (ConvertToMP4Context (DefaultMP4ConvertOption p g) env)) =
     Some (ffmpegBinPath g, [''-i'', p, resolveOutputMP4FileFormat p, ''-y''])"
  by (simp add: DefaultMP4ConvertOption_def ConvertToMP4Context_def Let_def
        command_line_def exec_Command_Args split: option.splits)

end
